theory Spec2Isabelle
  imports Main "HOL-Library.Word" "HOL-Library.Monad_Syntax" "HOL-Library.Signed_Division"
begin


section \<open>Basic types of the dbft package\<close>

type_synonym byte = "8 word"
type_synonym u16 = "16 word"
type_synonym u32 = "32 word"
type_synonym u64 = "64 word"

text \<open>\<^verbatim>\<open>common.Hash\<close> and \<^verbatim>\<open>common.Address\<close> are fixed-size byte arrays, signatures are
  byte slices, \<^verbatim>\<open>time.Duration\<close> is a 64-bit two's complement count of nanoseconds.
  Public keys, transactions and wall-clock instants are opaque to the engine.\<close>

type_synonym hash = "byte list"
type_synonym address = "byte list"
type_synonym signature = "byte list"
type_synonym pubkey = nat
type_synonym tx = nat
type_synonym duration = "64 word"
type_synonym time = int

text \<open>A Go runtime panic (index out of range, failed type assertion, nil dereference,
  integer division by zero) is the result \<open>None\<close> of a function into \<open>option\<close>.\<close>

definition at :: "'a list \<Rightarrow> nat \<Rightarrow> 'a option" where
  "at xs i = (if i < length xs then Some (xs ! i) else None)"

definition atInt :: "'a list \<Rightarrow> int \<Rightarrow> 'a option" where
  "atInt xs i = (if 0 \<le> i \<and> nat i < length xs then Some (xs ! nat i) else None)"

definition store :: "'a list \<Rightarrow> nat \<Rightarrow> 'a \<Rightarrow> 'a list option" where
  "store xs i v = (if i < length xs then Some (xs[i := v]) else None)"

datatype MessageType =
    ChangeViewType | PrepareRequestType | PrepareResponseType
  | CommitType | RecoveryRequestType | RecoveryMessageType
  | OtherType

datatype ChangeViewReason =
    CVTimeout | CVChangeAgreement | CVTxInvalid | CVBlockRejectedByPolicy | CVUnknown

record prepareRequest =
  timestamp :: u64
  nonce :: u64
  transactionHashes :: "hash list"
  nextConsensus :: address

record changeView =
  newViewNumber :: byte
  cvTimestamp :: u64
  reason :: ChangeViewReason

record preparationCompact =
  pcValidatorIndex :: u16

record commitCompact =
  ccViewNumber :: byte
  ccValidatorIndex :: u16
  ccSignature :: signature

record changeViewCompact =
  cvcValidatorIndex :: u16
  cvcOriginalViewNumber :: byte
  cvcTimestamp :: u64

record recoveryMessage =
  preparationHash :: "hash option"
  preparationPayloads :: "preparationCompact list"
  commitPayloads :: "commitCompact list"
  changeViewPayloads :: "changeViewCompact list"
  prepareRequestOf :: "prepareRequest option"

text \<open>The body a payload carries (\<^verbatim>\<open>message.payload\<close>, an \<^verbatim>\<open>interface{}\<close>); the typed
  getters of \<^verbatim>\<open>ConsensusPayload\<close> are type assertions on it.\<close>

datatype body =
    PrepareRequestBody prepareRequest
  | PrepareResponseBody hash
  | ChangeViewBody changeView
  | CommitBody signature
  | RecoveryRequestBody u64
  | RecoveryMessageBody recoveryMessage

record Payload =
  cmType :: MessageType
  viewNumber :: byte
  payload :: "body option"
  height :: u32
  validatorIndex :: u16

definition GetChangeView :: "Payload \<Rightarrow> changeView option" where
  "GetChangeView m = (case payload m of Some (ChangeViewBody cv) \<Rightarrow> Some cv | _ \<Rightarrow> None)"

definition GetPrepareRequest :: "Payload \<Rightarrow> prepareRequest option" where
  "GetPrepareRequest m = (case payload m of Some (PrepareRequestBody p) \<Rightarrow> Some p | _ \<Rightarrow> None)"

definition GetPrepareResponse :: "Payload \<Rightarrow> hash option" where
  "GetPrepareResponse m = (case payload m of Some (PrepareResponseBody h) \<Rightarrow> Some h | _ \<Rightarrow> None)"

definition GetCommit :: "Payload \<Rightarrow> signature option" where
  "GetCommit m = (case payload m of Some (CommitBody sg) \<Rightarrow> Some sg | _ \<Rightarrow> None)"

definition GetRecoveryMessage :: "Payload \<Rightarrow> recoveryMessage option" where
  "GetRecoveryMessage m = (case payload m of Some (RecoveryMessageBody r) \<Rightarrow> Some r | _ \<Rightarrow> None)"

record HV =
  Height :: u32
  View :: byte

record Block =
  bIndex :: u32
  bTimestamp :: u64
  bNonce :: u64
  bNextConsensus :: address
  bTransactionHashes :: "hash list"
  bSignatures :: "signature list"

text \<open>Calls into the host and the timer that change something outside the engine are
  recorded, in the order they are made.\<close>

datatype effect =
    Broadcast Payload
  | ProcessBlock Block
  | RequestTx "hash list"
  | TimerReset HV duration
  | TimerExtend duration

section \<open>Message cache\<close>

record inbox =
  prepare :: "Payload list"
  chViews :: "Payload list"
  commit :: "Payload list"

type_synonym cache = "u32 \<Rightarrow> inbox option"

definition newCache :: cache where
  "newCache = (\<lambda>_. None)"

definition getHeight :: "cache \<Rightarrow> u32 \<Rightarrow> inbox option" where
  "getHeight c h = c h"

text \<open>Modelled from the spec: \<^verbatim>\<open>cache.addMessage\<close> (the cache of package dbft is not among
  the sources). The cache maps a height to the three lists \<open>prepare\<close>, \<open>commit\<close> and
  \<open>chViews\<close>; the package's test puts a PrepareRequest into \<open>prepare\<close>, a ChangeView into
  \<open>chViews\<close> and a Commit into \<open>commit\<close>.\<close>

definition addMessage :: "Payload \<Rightarrow> cache \<Rightarrow> cache" where
  "addMessage m c =
     (let msgs = (case getHeight c (height m) of
                    None \<Rightarrow> \<lparr>prepare = [], chViews = [], commit = []\<rparr>
                  | Some b \<Rightarrow> b);
          msgs' = (case cmType m of
                     PrepareRequestType \<Rightarrow> msgs\<lparr>prepare := prepare msgs @ [m]\<rparr>
                   | PrepareResponseType \<Rightarrow> msgs\<lparr>prepare := prepare msgs @ [m]\<rparr>
                   | ChangeViewType \<Rightarrow> msgs\<lparr>chViews := chViews msgs @ [m]\<rparr>
                   | CommitType \<Rightarrow> msgs\<lparr>commit := commit msgs @ [m]\<rparr>
                   | _ \<Rightarrow> msgs)
      in c(height m := Some msgs'))"

section \<open>Consensus context and engine state\<close>

text \<open>\<^verbatim>\<open>DBFT\<close> embeds \<^verbatim>\<open>Context\<close>; the fields of both are the fields of one record, together
  with the recorded effects.\<close>

record DBFT =
  BlockIndex :: u32
  ViewNumber :: byte
  Validators :: "pubkey list"
  MyIndex :: int
  PrimaryIndex :: nat
  Timestamp :: u64
  Nonce :: u64
  NextConsensus :: address
  TransactionHashes :: "hash list"
  Transactions :: "hash \<rightharpoonup> tx"
  MissingTransactions :: "hash list"
  PreparationPayloads :: "Payload option list"
  CommitPayloads :: "Payload option list"
  ChangeViewPayloads :: "Payload option list"
  LastSeenMessage :: "HV option list"
  block :: "Block option"
  lastBlockIndex :: u32
  lastBlockTime :: time
  cache :: cache
  recovering :: bool
  effects :: "effect list"


section \<open>Configuration: the host interface\<close>

text \<open>The callbacks of \<^verbatim>\<open>Config\<close> that the engine reads, the injected timer's clock, and the
  methods of the engine and of its context whose code is not among the sources (the
  payload constructors and senders of \<^verbatim>\<open>send.go\<close>, \<^verbatim>\<open>CreateBlock\<close> and \<^verbatim>\<open>MakeHeader\<close> of
  \<^verbatim>\<open>context.go\<close>), taken as parameters. A callback whose answer depends on the blocks
  handed to the host so far receives the recorded effects. \<^verbatim>\<open>Verify\<close> is \<^verbatim>\<open>header.Verify\<close>
  returning no error, \<^verbatim>\<open>VerifyPrepareRequest\<close> and \<^verbatim>\<open>VerifyPrepareResponse\<close> likewise;
  \<^verbatim>\<open>Hash\<close> and \<^verbatim>\<open>txHash\<close> are the \<^verbatim>\<open>Hash()\<close> methods of payloads and transactions. A nil block
  or header is \<open>None\<close>. Of the logger only one thing matters: \<^verbatim>\<open>Logger.DPanic\<close> panics after
  logging when the logger is in development mode, and only logs otherwise.\<close>

record Config =
  DevelopmentLogger :: bool
  SecondsPerBlock :: duration
  Now :: time
  WatchOnlyCfg :: bool
  CurrentHeight :: "effect list \<Rightarrow> u32"
  GetValidators :: "u32 \<Rightarrow> pubkey list"
  GetKeyPair :: "pubkey list \<Rightarrow> int"
  GetTx :: "hash \<Rightarrow> tx option"
  VerifyBlock :: "Block option \<Rightarrow> bool"
  GetConsensusAddress :: "pubkey list \<Rightarrow> address"
  VerifyPrepareRequest :: "Payload \<Rightarrow> bool"
  VerifyPrepareResponse :: "Payload \<Rightarrow> bool"
  Hash :: "Payload \<Rightarrow> hash"
  txHash :: "tx \<Rightarrow> hash"
  Verify :: "Block \<Rightarrow> pubkey \<Rightarrow> signature \<Rightarrow> bool"
  CreateBlock :: "DBFT \<Rightarrow> Block option"
  MakeHeader :: "DBFT \<Rightarrow> Block option"
  MoreThanFNodesCommittedOrLost :: "DBFT \<Rightarrow> bool"
  makeChangeView :: "DBFT \<Rightarrow> u64 \<Rightarrow> ChangeViewReason \<Rightarrow> Payload"
  sendCommit :: "DBFT \<Rightarrow> DBFT option"
  sendPrepareRequest :: "DBFT \<Rightarrow> DBFT option"
  sendPrepareResponse :: "DBFT \<Rightarrow> DBFT option"
  sendChangeView :: "ChangeViewReason \<Rightarrow> DBFT \<Rightarrow> DBFT option"
  sendRecoveryMessage :: "DBFT \<Rightarrow> DBFT option"

definition DPanic :: "Config \<Rightarrow> DBFT \<Rightarrow> DBFT option" where
  "DPanic cfg d = (if DevelopmentLogger cfg then None else Some d)"

section \<open>Context predicates\<close>

text \<open>Modelled from the spec: the methods \<^verbatim>\<open>N\<close>, \<^verbatim>\<open>F\<close>, \<^verbatim>\<open>M\<close> of \<^verbatim>\<open>Context\<close> (context.go is not
  among the sources). The validator set has \<open>N\<close> keys, \<open>N = 3f+1\<close> and \<open>M = N - f\<close>.\<close>

definition N :: "DBFT \<Rightarrow> nat" where
  "N d = length (Validators d)"

definition F :: "DBFT \<Rightarrow> nat" where
  "F d = (N d - 1) div 3"

definition M :: "DBFT \<Rightarrow> nat" where
  "M d = N d - F d"

text \<open>Modelled from the spec: \<^verbatim>\<open>Context.GetPrimaryIndex\<close>,
  \<open>primary(H,v) = (H - v) mod N\<close>.\<close>

definition primary :: "u32 \<Rightarrow> byte \<Rightarrow> nat \<Rightarrow> nat" where
  "primary h v n = nat ((int (unat h) - int (unat v)) mod int n)"

definition GetPrimaryIndex :: "DBFT \<Rightarrow> byte \<Rightarrow> nat" where
  "GetPrimaryIndex d v = primary (BlockIndex d) v (N d)"

text \<open>Modelled from the spec: the role and progress predicates of \<^verbatim>\<open>Context\<close>. WatchOnly:
  the node is not in the validator set (\<open>MyIndex = -1\<close>) or the host forces the spectator
  role. Primary: the local index equals the primary of the current view. Backup: a
  validator that is not the primary. RequestSentOrReceived: the slot of \<open>PrimaryIndex\<close>
  is filled. ResponseSent: the local preparation slot is filled. CommitSent: the local
  commit slot is filled. BlockSent: a block was finalized. ViewChanging: the local
  ChangeView payload requests a higher view than the current one.\<close>

definition WatchOnly :: "Config \<Rightarrow> DBFT \<Rightarrow> bool" where
  "WatchOnly cfg d = (MyIndex d < 0 \<or> WatchOnlyCfg cfg)"

definition IsPrimary :: "DBFT \<Rightarrow> bool" where
  "IsPrimary d = (MyIndex d = int (PrimaryIndex d))"

definition IsBackup :: "DBFT \<Rightarrow> bool" where
  "IsBackup d = (0 \<le> MyIndex d \<and> \<not> IsPrimary d)"

definition filled :: "Payload option list \<Rightarrow> int \<Rightarrow> bool" where
  "filled slots i = (case atInt slots i of Some (Some m) \<Rightarrow> True | _ \<Rightarrow> False)"

definition RequestSentOrReceived :: "DBFT \<Rightarrow> bool" where
  "RequestSentOrReceived d = filled (PreparationPayloads d) (int (PrimaryIndex d))"

definition ResponseSent :: "Config \<Rightarrow> DBFT \<Rightarrow> bool" where
  "ResponseSent cfg d = (\<not> WatchOnly cfg d \<and> filled (PreparationPayloads d) (MyIndex d))"

definition CommitSent :: "Config \<Rightarrow> DBFT \<Rightarrow> bool" where
  "CommitSent cfg d = (\<not> WatchOnly cfg d \<and> filled (CommitPayloads d) (MyIndex d))"

definition BlockSent :: "DBFT \<Rightarrow> bool" where
  "BlockSent d = (block d \<noteq> None)"

definition ViewChanging :: "Config \<Rightarrow> DBFT \<Rightarrow> bool" where
  "ViewChanging cfg d =
     (\<not> WatchOnly cfg d \<and>
      (case atInt (ChangeViewPayloads d) (MyIndex d) of
         Some (Some m) \<Rightarrow>
           (case GetChangeView m of Some cv \<Rightarrow> ViewNumber d < newViewNumber cv | None \<Rightarrow> False)
       | _ \<Rightarrow> False))"

text \<open>Modelled from the spec: \<^verbatim>\<open>Context.hasAllTransactions\<close>; no proposed transaction is
  missing: every hash of \<open>TransactionHashes\<close> is a key of \<open>Transactions\<close>.\<close>

definition hasAllTransactions :: "DBFT \<Rightarrow> bool" where
  "hasAllTransactions d = list_all (\<lambda>h. Transactions d h \<noteq> None) (TransactionHashes d)"

section \<open>Timer and broadcast\<close>

text \<open>Modelled from the spec: \<^verbatim>\<open>DBFT.broadcast\<close> hands the payload to the host's
  \<^verbatim>\<open>Broadcast\<close>.\<close>

definition broadcast :: "Payload \<Rightarrow> DBFT \<Rightarrow> DBFT" where
  "broadcast m d = d\<lparr>effects := effects d @ [Broadcast m]\<rparr>"

definition changeTimer :: "duration \<Rightarrow> DBFT \<Rightarrow> DBFT" where
  "changeTimer delay d =
     d\<lparr>effects := effects d @ [TimerReset \<lparr>Height = BlockIndex d, View = ViewNumber d\<rparr> delay]\<rparr>"

text \<open>\<^verbatim>\<open>count * d.SecondsPerBlock / time.Duration(d.M())\<close>: the product wraps at 64 bits, the
  quotient truncates towards zero, a zero divisor panics.\<close>

definition extendTimer :: "Config \<Rightarrow> duration \<Rightarrow> DBFT \<Rightarrow> DBFT option" where
  "extendTimer cfg count d =
     (if \<not> CommitSent cfg d \<and> \<not> ViewChanging cfg d then
        (if M d = 0 then None
         else Some (d\<lparr>effects := effects d @
                [TimerExtend (word_of_int (sint (count * SecondsPerBlock cfg) sdiv int (M d)))]\<rparr>))
      else Some d)"

section \<open>Initialization\<close>

text \<open>Modelled from the spec: \<^verbatim>\<open>Context.reset\<close> (context.go is not among the sources).
  On a height change (view 0) the height becomes the host's current height plus one, the
  validator list is fetched, the local index is looked up, and all payload slots,
  transaction maps and proposed fields are cleared; the source's comment on
  \<^verbatim>\<open>GetValidators\<close> says that dbft panics on an empty validator list. On a view change the
  preparation slots and \<open>TransactionHashes\<close>, \<open>Transactions\<close>, \<open>MissingTransactions\<close> are
  cleared, the commit and change-view slots are retained, and \<open>ViewNumber\<close> becomes the
  target view. \<open>PrimaryIndex = (BlockIndex - ViewNumber) mod N\<close> at all times.
  \<open>LastSeenMessage\<close> keeps one slot per validator.\<close>

definition reset :: "Config \<Rightarrow> byte \<Rightarrow> DBFT \<Rightarrow> DBFT option" where
  "reset cfg view d =
     (if view = 0 then
        (let h = CurrentHeight cfg (effects d) + 1;
             vs = GetValidators cfg h;
             n = length vs
         in if n = 0 then None
            else Some (d\<lparr>BlockIndex := h, ViewNumber := 0, Validators := vs,
                        MyIndex := GetKeyPair cfg vs, PrimaryIndex := primary h 0 n,
                        Timestamp := 0, Nonce := 0, NextConsensus := [],
                        TransactionHashes := [], Transactions := Map.empty,
                        MissingTransactions := [],
                        PreparationPayloads := replicate n None,
                        CommitPayloads := replicate n None,
                        ChangeViewPayloads := replicate n None,
                        LastSeenMessage :=
                          (if length (LastSeenMessage d) = n then LastSeenMessage d
                           else replicate n None),
                        block := None\<rparr>))
      else Some (d\<lparr>ViewNumber := view, PrimaryIndex := primary (BlockIndex d) view (N d),
                   TransactionHashes := [], Transactions := Map.empty,
                   MissingTransactions := [],
                   PreparationPayloads := replicate (N d) None\<rparr>))"

text \<open>\<^verbatim>\<open>time.Time.Sub\<close> saturates at the bounds of \<^verbatim>\<open>time.Duration\<close>.\<close>

definition Sub :: "time \<Rightarrow> time \<Rightarrow> duration" where
  "Sub t u = word_of_int (max (- (2 ^ 63)) (min (2 ^ 63 - 1) (t - u)))"

definition InitializeConsensus :: "Config \<Rightarrow> byte \<Rightarrow> DBFT \<Rightarrow> DBFT option" where
  "InitializeConsensus cfg view d0 =
     (case reset cfg view d0 of
        None \<Rightarrow> None
      | Some d \<Rightarrow>
          if WatchOnly cfg d then Some d
          else
            let timeout0 =
                  (if IsPrimary d \<and> \<not> recovering d
                   then (if view = 0 then SecondsPerBlock cfg else 0)
                   else push_bit (unat (ViewNumber d + 1)) (SecondsPerBlock cfg));
                timeout =
                  (if lastBlockIndex d + 1 = BlockIndex d
                   then (let diff = Sub (Now cfg) (lastBlockTime d);
                             t = timeout0 - diff
                         in if t <s 0 then 0 else t)
                   else timeout0)
            in Some (changeTimer timeout d))"

section \<open>check.go\<close>

fun countCommits :: "byte \<Rightarrow> Payload option list \<Rightarrow> nat \<Rightarrow> nat" where
  "countCommits v [] count = count"
| "countCommits v (None # ms) count = countCommits v ms count"
| "countCommits v (Some msg # ms) count =
     countCommits v ms (if viewNumber msg = v then count + 1 else count)"

definition checkCommit :: "Config \<Rightarrow> DBFT \<Rightarrow> DBFT option" where
  "checkCommit cfg d =
     (if \<not> hasAllTransactions d then Some d
      else
        let count = countCommits (ViewNumber d) (CommitPayloads d) 0
        in if count < M d then Some d
           else
             let d1 = d\<lparr>lastBlockIndex := BlockIndex d, lastBlockTime := Now cfg\<rparr>
             in case CreateBlock cfg d1 of
                  None \<Rightarrow> None
                | Some b \<Rightarrow>
                    InitializeConsensus cfg 0
                      (d1\<lparr>block := Some b, effects := effects d1 @ [ProcessBlock b]\<rparr>))"

fun countPreparations :: "byte \<Rightarrow> Payload option list \<Rightarrow> nat \<times> bool \<Rightarrow> nat \<times> bool" where
  "countPreparations v [] acc = acc"
| "countPreparations v (None # ms) acc = countPreparations v ms acc"
| "countPreparations v (Some msg # ms) (count, hasRequest) =
     countPreparations v ms
       (if viewNumber msg = v then count + 1 else count,
        if cmType msg = PrepareRequestType then True else hasRequest)"

definition checkPrepare :: "Config \<Rightarrow> DBFT \<Rightarrow> DBFT option" where
  "checkPrepare cfg d =
     (if \<not> hasAllTransactions d then Some d
      else
        case countPreparations (ViewNumber d) (PreparationPayloads d) (0, False) of
          (count, hasRequest) \<Rightarrow>
            if hasRequest \<and> M d \<le> count then
              do {
                d1 \<leftarrow> sendCommit cfg d;
                checkCommit cfg (changeTimer (SecondsPerBlock cfg) d1)
              }
            else Some d)"

fun countChangeViews :: "byte \<Rightarrow> Payload option list \<Rightarrow> nat \<Rightarrow> nat option" where
  "countChangeViews view [] count = Some count"
| "countChangeViews view (None # ms) count = countChangeViews view ms count"
| "countChangeViews view (Some msg # ms) count =
     (case GetChangeView msg of
        None \<Rightarrow> None
      | Some cv \<Rightarrow>
          countChangeViews view ms (if view \<le> newViewNumber cv then count + 1 else count))"

definition checkChangeView :: "Config \<Rightarrow> byte \<Rightarrow> DBFT \<Rightarrow> DBFT option" where
  "checkChangeView cfg view d =
     (if view \<le> ViewNumber d then Some d
      else
        case countChangeViews view (ChangeViewPayloads d) 0 of
          None \<Rightarrow> None
        | Some count \<Rightarrow>
            if count < M d then Some d
            else
              do {
                d1 \<leftarrow>
                  (if \<not> WatchOnly cfg d then
                     (case atInt (ChangeViewPayloads d) (MyIndex d) of
                        None \<Rightarrow> None
                      | Some None \<Rightarrow> Some d
                      | Some (Some msg) \<Rightarrow>
                          (case GetChangeView msg of
                             None \<Rightarrow> None
                           | Some cv \<Rightarrow>
                               if newViewNumber cv < view
                               then Some (broadcast
                                      (makeChangeView cfg d (word_of_int (Now cfg)) CVChangeAgreement) d)
                               else Some d))
                   else Some d);
                InitializeConsensus cfg view d1
              })"

section \<open>recovery\_message.go: rebuilding payloads from a recovery message\<close>

text \<open>A nil \<^verbatim>\<open>recoveryMessage\<close> (the getter of the payload returned nil) panics when one of
  its methods reads a field. The source's comment says that \<^verbatim>\<open>prepareRequest.Timestamp()\<close>
  returns a nanosecond value and that \<^verbatim>\<open>nanoSecToSec\<close> converts it to seconds again; both
  wrap at 64 bits.\<close>

definition secToNanoSec :: "u64 \<Rightarrow> u64" where
  "secToNanoSec s = s * 1000000000"

definition nanoSecToSec :: "u64 \<Rightarrow> u64" where
  "nanoSecToSec n = n div 1000000000"

definition TimestampOf :: "prepareRequest \<Rightarrow> u64" where
  "TimestampOf p = secToNanoSec (timestamp p)"

text \<open>\<^verbatim>\<open>GetChangeViews\<close> leaves the reason of a rebuilt ChangeView at the zero value of its
  type, taken to be \<open>CVTimeout\<close>.\<close>

definition zeroReason :: ChangeViewReason where
  "zeroReason = CVTimeout"

definition fromPayload :: "MessageType \<Rightarrow> Payload \<Rightarrow> body \<Rightarrow> Payload" where
  "fromPayload t recovery p =
     \<lparr>cmType = t, viewNumber = viewNumber recovery, payload = Some p,
      height = height recovery, validatorIndex = 0\<rparr>"

definition SetValidatorIndex :: "u16 \<Rightarrow> Payload \<Rightarrow> Payload" where
  "SetValidatorIndex i p = p\<lparr>validatorIndex := i\<rparr>"

definition recGetPrepareRequest :: "recoveryMessage \<Rightarrow> Payload \<Rightarrow> u16 \<Rightarrow> Payload option" where
  "recGetPrepareRequest m p ind =
     (case prepareRequestOf m of
        None \<Rightarrow> None
      | Some pr \<Rightarrow>
          Some (SetValidatorIndex ind
            (fromPayload PrepareRequestType p
               (PrepareRequestBody
                  \<lparr>timestamp = nanoSecToSec (TimestampOf pr), nonce = nonce pr,
                   transactionHashes = transactionHashes pr,
                   nextConsensus = nextConsensus pr\<rparr>))))"

definition recGetPrepareResponses :: "recoveryMessage \<Rightarrow> Payload \<Rightarrow> Payload list" where
  "recGetPrepareResponses m p =
     (case preparationHash m of
        None \<Rightarrow> []
      | Some h \<Rightarrow>
          map (\<lambda>resp. SetValidatorIndex (pcValidatorIndex resp)
                 (fromPayload PrepareResponseType p (PrepareResponseBody h)))
              (preparationPayloads m))"

definition recGetChangeViews :: "recoveryMessage \<Rightarrow> Payload \<Rightarrow> Payload list" where
  "recGetChangeViews m p =
     map (\<lambda>cv. SetValidatorIndex (cvcValidatorIndex cv)
            (fromPayload ChangeViewType p
               (ChangeViewBody \<lparr>newViewNumber = cvcOriginalViewNumber cv + 1,
                                cvTimestamp = cvcTimestamp cv, reason = zeroReason\<rparr>)))
         (changeViewPayloads m)"

definition recGetCommits :: "recoveryMessage \<Rightarrow> Payload \<Rightarrow> Payload list" where
  "recGetCommits m p =
     map (\<lambda>c. SetValidatorIndex (ccValidatorIndex c)
            (fromPayload CommitType p (CommitBody (ccSignature c))))
         (commitPayloads m)"

section \<open>dbft.go: the handlers\<close>

text \<open>Modelled from the spec: \<^verbatim>\<open>Context.NotAcceptingPayloadsDueToViewChanging\<close>, the compound
  predicate of the design notes: the node is changing view and not more than \<open>f\<close> nodes
  have committed or are lost.\<close>

definition NotAcceptingPayloadsDueToViewChanging :: "Config \<Rightarrow> DBFT \<Rightarrow> bool" where
  "NotAcceptingPayloadsDueToViewChanging cfg d =
     (ViewChanging cfg d \<and> \<not> MoreThanFNodesCommittedOrLost cfg d)"

text \<open>\<^verbatim>\<open>createAndCheckBlock\<close> returns its verdict together with the state.\<close>

definition createAndCheckBlock :: "Config \<Rightarrow> DBFT \<Rightarrow> (bool \<times> DBFT) option" where
  "createAndCheckBlock cfg d =
     (if NextConsensus d \<noteq> GetConsensusAddress cfg (GetValidators cfg (BlockIndex d + 1))
      then map_option (Pair False) (sendChangeView cfg CVBlockRejectedByPolicy d)
      else if \<not> VerifyBlock cfg (CreateBlock cfg d)
      then map_option (Pair False) (sendChangeView cfg CVTxInvalid d)
      else Some (True, d))"

definition addTransaction :: "Config \<Rightarrow> tx \<Rightarrow> DBFT \<Rightarrow> DBFT option" where
  "addTransaction cfg t d0 =
     (let d = d0\<lparr>Transactions := (Transactions d0)(txHash cfg t \<mapsto> t)\<rparr>
      in if hasAllTransactions d then
           (if IsPrimary d \<or> WatchOnly cfg d then Some d
            else
              do {
                (ok, d1) \<leftarrow> createAndCheckBlock cfg d;
                if \<not> ok then Some d1
                else
                  do {
                    d2 \<leftarrow> extendTimer cfg 2 d1;
                    d3 \<leftarrow> sendPrepareResponse cfg d2;
                    checkPrepare cfg d3
                  }
              })
         else Some d)"

fun findMissing :: "hash \<Rightarrow> hash list \<Rightarrow> nat \<Rightarrow> nat option" where
  "findMissing h [] i = None"
| "findMissing h (x # xs) i = (if h = x then Some i else findMissing h xs (i + 1))"

definition OnTransaction :: "Config \<Rightarrow> tx \<Rightarrow> DBFT \<Rightarrow> DBFT option" where
  "OnTransaction cfg t d =
     (if \<not> IsBackup d \<or> NotAcceptingPayloadsDueToViewChanging cfg d \<or>
         \<not> RequestSentOrReceived d \<or> ResponseSent cfg d \<or> BlockSent d \<or>
         length (MissingTransactions d) = 0
      then Some d
      else
        case findMissing (txHash cfg t) (MissingTransactions d) 0 of
          None \<Rightarrow> Some d
        | Some i \<Rightarrow>
            do {
              d1 \<leftarrow> addTransaction cfg t d;
              if length (MissingTransactions d1) = 0 then Some d1
              else
                let ms = MissingTransactions d1;
                    theLastOne = length ms - 1;
                    ms' = (if i < theLastOne then ms[i := ms ! theLastOne] else ms)
                in Some (d1\<lparr>MissingTransactions := take theLastOne ms'\<rparr>)
            })"

definition OnTimeout :: "Config \<Rightarrow> HV \<Rightarrow> DBFT \<Rightarrow> DBFT option" where
  "OnTimeout cfg hv d =
     (if WatchOnly cfg d then Some d
      else if Height hv \<noteq> BlockIndex d \<or> View hv \<noteq> ViewNumber d then Some d
      else if IsPrimary d \<and> \<not> RequestSentOrReceived d then sendPrepareRequest cfg d
      else if (IsPrimary d \<and> RequestSentOrReceived d) \<or> IsBackup d then
        (if CommitSent cfg d then
           do {
             d1 \<leftarrow> sendRecoveryMessage cfg d;
             Some (changeTimer (push_bit 1 (SecondsPerBlock cfg)) d1)
           }
         else sendChangeView cfg CVTimeout d)
      else Some d)"

fun missingTx :: "Config \<Rightarrow> hash list \<Rightarrow> (hash \<rightharpoonup> tx) \<times> hash list \<Rightarrow> (hash \<rightharpoonup> tx) \<times> hash list" where
  "missingTx cfg [] acc = acc"
| "missingTx cfg (h # hs) (txs, missing) =
     (if txs h \<noteq> None then missingTx cfg hs (txs, missing)
      else case GetTx cfg h of
             None \<Rightarrow> missingTx cfg hs (txs, missing @ [h])
           | Some t \<Rightarrow> missingTx cfg hs (txs(h \<mapsto> t), missing))"

definition processMissingTx :: "Config \<Rightarrow> DBFT \<Rightarrow> DBFT" where
  "processMissingTx cfg d =
     (case missingTx cfg (TransactionHashes d) (Transactions d, []) of
        (txs, missing) \<Rightarrow>
          if length missing \<noteq> 0
          then d\<lparr>Transactions := txs, MissingTransactions := missing,
                 effects := effects d @ [RequestTx missing]\<rparr>
          else d\<lparr>Transactions := txs\<rparr>)"

definition clearMismatch :: "hash \<Rightarrow> Payload option \<Rightarrow> Payload option" where
  "clearMismatch h slot =
     (case slot of
        None \<Rightarrow> None
      | Some m \<Rightarrow>
          if cmType m = PrepareResponseType then
            (case GetPrepareResponse m of
               None \<Rightarrow> Some m
             | Some prepHash \<Rightarrow> if prepHash \<noteq> h then None else Some m)
          else Some m)"

text \<open>The second loop of \<^verbatim>\<open>updateExistingPayloads\<close>: \<open>ms\<close> are the slots not yet visited and
  \<open>i\<close> is the index of the first of them.\<close>

fun verifyCommits :: "Config \<Rightarrow> Payload option list \<Rightarrow> nat \<Rightarrow> DBFT \<Rightarrow> DBFT option" where
  "verifyCommits cfg [] i d = Some d"
| "verifyCommits cfg (None # ms) i d = verifyCommits cfg ms (i + 1) d"
| "verifyCommits cfg (Some m # ms) i d =
     (if viewNumber m = ViewNumber d then
        (case MakeHeader cfg d of
           None \<Rightarrow> verifyCommits cfg ms (i + 1) d
         | Some header \<Rightarrow>
             (case at (Validators d) (unat (validatorIndex m)) of
                None \<Rightarrow> None
              | Some pub \<Rightarrow>
                  (case GetCommit m of
                     None \<Rightarrow> None
                   | Some sg \<Rightarrow>
                       if \<not> Verify cfg header pub sg
                       then verifyCommits cfg ms (i + 1)
                              (d\<lparr>CommitPayloads := (CommitPayloads d)[i := None]\<rparr>)
                       else verifyCommits cfg ms (i + 1) d)))
      else verifyCommits cfg ms (i + 1) d)"

definition updateExistingPayloads :: "Config \<Rightarrow> Payload \<Rightarrow> DBFT \<Rightarrow> DBFT option" where
  "updateExistingPayloads cfg msg d =
     (let d1 = d\<lparr>PreparationPayloads := map (clearMismatch (Hash cfg msg)) (PreparationPayloads d)\<rparr>
      in verifyCommits cfg (CommitPayloads d1) 0 d1)"

definition onPrepareRequest :: "Config \<Rightarrow> Payload \<Rightarrow> DBFT \<Rightarrow> DBFT option" where
  "onPrepareRequest cfg msg d =
     (if RequestSentOrReceived d then Some d
      else if ViewNumber d \<noteq> viewNumber msg then Some d
      else if unat (validatorIndex msg) \<noteq> GetPrimaryIndex d (ViewNumber d) then Some d
      else if \<not> VerifyPrepareRequest cfg msg then sendChangeView cfg CVBlockRejectedByPolicy d
      else
        do {
          d1 \<leftarrow> extendTimer cfg 2 d;
          p \<leftarrow> GetPrepareRequest msg;
          let d2 = d1\<lparr>Timestamp := TimestampOf p, Nonce := nonce p,
                      NextConsensus := nextConsensus p,
                      TransactionHashes := transactionHashes p\<rparr>;
          d3 \<leftarrow> updateExistingPayloads cfg msg (processMissingTx cfg d2);
          pps \<leftarrow> store (PreparationPayloads d3) (unat (validatorIndex msg)) (Some msg);
          let d4 = d3\<lparr>PreparationPayloads := pps\<rparr>;
          if \<not> hasAllTransactions d4 then Some d4
          else
            do {
              (ok, d5) \<leftarrow> createAndCheckBlock cfg d4;
              if \<not> ok \<or> WatchOnly cfg d5 then Some d5
              else
                do {
                  d6 \<leftarrow> sendPrepareResponse cfg d5;
                  checkPrepare cfg d6
                }
            }
        })"

definition onPrepareResponse :: "Config \<Rightarrow> Payload \<Rightarrow> DBFT \<Rightarrow> DBFT option" where
  "onPrepareResponse cfg msg d =
     (if ViewNumber d \<noteq> viewNumber msg then Some d
      else if unat (validatorIndex msg) = GetPrimaryIndex d (ViewNumber d) then Some d
      else
        do {
          m \<leftarrow> at (PreparationPayloads d) (unat (validatorIndex msg));
          if m \<noteq> None \<or> (ViewChanging cfg d \<and> \<not> MoreThanFNodesCommittedOrLost cfg d)
          then Some d
          else if \<not> VerifyPrepareResponse cfg msg then Some d
          else
            do {
              pps \<leftarrow> store (PreparationPayloads d) (unat (validatorIndex msg)) (Some msg);
              let d1 = d\<lparr>PreparationPayloads := pps\<rparr>;
              req \<leftarrow> at (PreparationPayloads d1) (GetPrimaryIndex d1 (ViewNumber d1));
              (case req of
                 None \<Rightarrow>
                   do {
                     d2 \<leftarrow> extendTimer cfg 2 d1;
                     if \<not> WatchOnly cfg d2 \<and> \<not> CommitSent cfg d2 \<and> RequestSentOrReceived d2
                     then checkPrepare cfg d2 else Some d2
                   }
               | Some m' \<Rightarrow>
                   if GetPrepareRequest m' = None then DPanic cfg d1
                   else
                     do {
                       prepHash \<leftarrow> GetPrepareResponse msg;
                       if prepHash \<noteq> Hash cfg m'
                       then Some (d1\<lparr>PreparationPayloads :=
                                     (PreparationPayloads d1)[unat (validatorIndex msg) := None]\<rparr>)
                       else
                         do {
                           d2 \<leftarrow> extendTimer cfg 2 d1;
                           if \<not> WatchOnly cfg d2 \<and> \<not> CommitSent cfg d2 \<and>
                              RequestSentOrReceived d2
                           then checkPrepare cfg d2 else Some d2
                         }
                     })
            }
        })"

text \<open>The loop of \<^verbatim>\<open>onRecoveryRequest\<close>, from \<open>i\<close> on: \<open>f\<close> is \<^verbatim>\<open>d.F()\<close>, \<open>vi\<close> the requester's
  index, \<open>n\<close> the number of validators; the remainder by zero panics.\<close>

function shouldSendFrom :: "nat \<Rightarrow> nat \<Rightarrow> nat \<Rightarrow> int \<Rightarrow> nat \<Rightarrow> bool option" where
  "shouldSendFrom f vi n my i =
     (if i \<le> f then
        (if n = 0 then None
         else if int ((vi + i) mod n) = my then Some True
         else shouldSendFrom f vi n my (i + 1))
      else Some False)"
  by pat_completeness auto
termination
  by (relation "measure (\<lambda>(f, vi, n, my, i). f + 1 - i)") auto

declare shouldSendFrom.simps [simp del]

definition onRecoveryRequest :: "Config \<Rightarrow> Payload \<Rightarrow> DBFT \<Rightarrow> DBFT option" where
  "onRecoveryRequest cfg msg d =
     (if \<not> CommitSent cfg d then
        (case shouldSendFrom (F d) (unat (validatorIndex msg)) (length (Validators d))
                (MyIndex d) 1 of
           None \<Rightarrow> None
         | Some shouldSend \<Rightarrow> if \<not> shouldSend then Some d else sendRecoveryMessage cfg d)
      else sendRecoveryMessage cfg d)"

definition onChangeView :: "Config \<Rightarrow> Payload \<Rightarrow> DBFT \<Rightarrow> DBFT option" where
  "onChangeView cfg msg d =
     (case GetChangeView msg of
        None \<Rightarrow> None
      | Some p \<Rightarrow>
          if newViewNumber p \<le> ViewNumber d then onRecoveryRequest cfg msg d
          else if CommitSent cfg d then sendRecoveryMessage cfg d
          else
            do {
              m \<leftarrow> at (ChangeViewPayloads d) (unat (validatorIndex msg));
              older \<leftarrow>
                (case m of
                   None \<Rightarrow> Some False
                 | Some m' \<Rightarrow>
                     (case GetChangeView m' of
                        None \<Rightarrow> None
                      | Some cv \<Rightarrow> Some (newViewNumber p < newViewNumber cv)));
              if older then Some d
              else checkChangeView cfg (newViewNumber p)
                     (d\<lparr>ChangeViewPayloads :=
                          (ChangeViewPayloads d)[unat (validatorIndex msg) := Some msg]\<rparr>)
            })"

definition onCommit :: "Config \<Rightarrow> Payload \<Rightarrow> DBFT \<Rightarrow> DBFT option" where
  "onCommit cfg msg d =
     (if ViewNumber d = viewNumber msg then
        do {
          d1 \<leftarrow> extendTimer cfg 4 d;
          (case MakeHeader cfg d1 of
             None \<Rightarrow>
               do {
                 cps \<leftarrow> store (CommitPayloads d1) (unat (validatorIndex msg)) (Some msg);
                 Some (d1\<lparr>CommitPayloads := cps\<rparr>)
               }
           | Some header \<Rightarrow>
               do {
                 pub \<leftarrow> at (Validators d1) (unat (validatorIndex msg));
                 sg \<leftarrow> GetCommit msg;
                 if Verify cfg header pub sg then
                   do {
                     cps \<leftarrow> store (CommitPayloads d1) (unat (validatorIndex msg)) (Some msg);
                     checkCommit cfg (d1\<lparr>CommitPayloads := cps\<rparr>)
                   }
                 else Some d1
               })
        }
      else
        do {
          cps \<leftarrow> store (CommitPayloads d) (unat (validatorIndex msg)) (Some msg);
          Some (d\<lparr>CommitPayloads := cps\<rparr>)
        })"

text \<open>A loop that hands each payload of a list to \<^verbatim>\<open>OnReceive\<close>.\<close>

fun feed :: "(Payload \<Rightarrow> DBFT \<Rightarrow> DBFT option) \<Rightarrow> Payload list \<Rightarrow> DBFT \<Rightarrow> DBFT option" where
  "feed f [] d = Some d"
| "feed f (m # ms) d = (case f m d of None \<Rightarrow> None | Some d' \<Rightarrow> feed f ms d')"

text \<open>\<^verbatim>\<open>onRecoveryMessage\<close> calls \<^verbatim>\<open>OnReceive\<close> and \<^verbatim>\<open>OnReceive\<close> calls \<^verbatim>\<open>onRecoveryMessage\<close>. The
  payloads that \<^verbatim>\<open>onRecoveryMessage\<close> hands to \<^verbatim>\<open>OnReceive\<close> are built by \<^verbatim>\<open>fromPayload\<close> with
  the types ChangeView, PrepareRequest, PrepareResponse and Commit, so the recursion stops
  after one step. Both functions are first written with the other one as a parameter.
  An early \<^verbatim>\<open>return\<close> of \<^verbatim>\<open>onRecoveryMessage\<close> is \<open>Inl\<close>; the deferred function clears
  \<open>recovering\<close> on every return.\<close>

definition onRecoveryMessageWith ::
  "(Payload \<Rightarrow> DBFT \<Rightarrow> DBFT option) \<Rightarrow> Config \<Rightarrow> Payload \<Rightarrow> DBFT \<Rightarrow> DBFT option" where
  "onRecoveryMessageWith onReceive cfg msg d0 =
     (let recovery = GetRecoveryMessage msg;
          d = d0\<lparr>recovering := True\<rparr>
      in map_option (recovering_update (\<lambda>_. False))
           (do {
              r1 \<leftarrow>
                (if ViewNumber d < viewNumber msg then
                   (if CommitSent cfg d then Some (Inl d)
                    else
                      do {
                        rm \<leftarrow> recovery;
                        d' \<leftarrow> feed onReceive (recGetChangeViews rm msg) d;
                        Some (Inr d')
                      })
                 else Some (Inr d));
              (case r1 of
                 Inl d' \<Rightarrow> Some d'
               | Inr d1 \<Rightarrow>
                   do {
                     d2 \<leftarrow>
                       (if viewNumber msg = ViewNumber d1 \<and>
                           \<not> (ViewChanging cfg d1 \<and> \<not> MoreThanFNodesCommittedOrLost cfg d1) \<and>
                           \<not> CommitSent cfg d1
                        then
                          do {
                            rm \<leftarrow> recovery;
                            d1' \<leftarrow>
                              (if \<not> RequestSentOrReceived d1 then
                                 (case recGetPrepareRequest rm msg (word_of_nat (PrimaryIndex d1)) of
                                    Some prepReq \<Rightarrow> onReceive prepReq d1
                                  | None \<Rightarrow>
                                      if IsPrimary d1 then sendPrepareRequest cfg d1 else Some d1)
                               else Some d1);
                            feed onReceive (recGetPrepareResponses rm msg) d1'
                          }
                        else Some d1);
                     if viewNumber msg \<le> ViewNumber d2 then
                       do {
                         rm \<leftarrow> recovery;
                         feed onReceive (recGetCommits rm msg) d2
                       }
                     else Some d2
                   })
            }))"

definition OnReceiveWith ::
  "(Payload \<Rightarrow> DBFT \<Rightarrow> DBFT option) \<Rightarrow> Config \<Rightarrow> Payload \<Rightarrow> DBFT \<Rightarrow> DBFT option" where
  "OnReceiveWith onRecovery cfg msg d =
     (if length (Validators d) \<le> unat (validatorIndex msg) then Some d
      else if payload msg = None then DPanic cfg d
      else if height msg < BlockIndex d then Some d
      else if BlockIndex d < height msg \<or>
              (height msg = BlockIndex d \<and> viewNumber msg = ViewNumber d + 1 \<and>
               cmType msg \<noteq> RecoveryMessageType)
      then Some (d\<lparr>cache := addMessage msg (cache d)\<rparr>)
      else if word_of_nat (N d) < validatorIndex msg then Some d
      else
        do {
          hv \<leftarrow> at (LastSeenMessage d) (unat (validatorIndex msg));
          let d1 =
            (if (case hv of
                   None \<Rightarrow> True
                 | Some hv' \<Rightarrow> Height hv' < height msg \<or> View hv' < viewNumber msg)
             then d\<lparr>LastSeenMessage := (LastSeenMessage d)[unat (validatorIndex msg) :=
                       Some \<lparr>Height = height msg, View = viewNumber msg\<rparr>]\<rparr>
             else d);
          (case cmType msg of
             ChangeViewType \<Rightarrow> onChangeView cfg msg d1
           | PrepareRequestType \<Rightarrow> onPrepareRequest cfg msg d1
           | PrepareResponseType \<Rightarrow> onPrepareResponse cfg msg d1
           | CommitType \<Rightarrow> onCommit cfg msg d1
           | RecoveryRequestType \<Rightarrow> onRecoveryRequest cfg msg d1
           | RecoveryMessageType \<Rightarrow> onRecovery msg d1
           | OtherType \<Rightarrow> DPanic cfg d1)
        })"

text \<open>\<^verbatim>\<open>OnReceive\<close> on a payload rebuilt from a recovery message, whose type is never
  RecoveryMessage.\<close>

definition OnReceiveRebuilt :: "Config \<Rightarrow> Payload \<Rightarrow> DBFT \<Rightarrow> DBFT option" where
  "OnReceiveRebuilt cfg = OnReceiveWith (\<lambda>msg d. Some d) cfg"

definition onRecoveryMessage :: "Config \<Rightarrow> Payload \<Rightarrow> DBFT \<Rightarrow> DBFT option" where
  "onRecoveryMessage cfg = onRecoveryMessageWith (OnReceiveRebuilt cfg) cfg"

definition OnReceive :: "Config \<Rightarrow> Payload \<Rightarrow> DBFT \<Rightarrow> DBFT option" where
  "OnReceive cfg = OnReceiveWith (onRecoveryMessage cfg) cfg"

section \<open>Observations used to state the properties\<close>

text \<open>The payloads handed to \<^verbatim>\<open>Broadcast\<close> and the blocks handed to \<^verbatim>\<open>ProcessBlock\<close>, in
  order.\<close>

fun broadcasts :: "effect list \<Rightarrow> Payload list" where
  "broadcasts [] = []"
| "broadcasts (Broadcast m # es) = m # broadcasts es"
| "broadcasts (e # es) = broadcasts es"

fun processed :: "effect list \<Rightarrow> Block list" where
  "processed [] = []"
| "processed (ProcessBlock b # es) = b # processed es"
| "processed (e # es) = processed es"

text \<open>The counts of \<^verbatim>\<open>check.go\<close> in the words of the specification: the number of slots
  whose payload carries a given view, whether some slot holds a PrepareRequest, and the
  number of ChangeView slots that request at least a given view.\<close>

definition atView :: "byte \<Rightarrow> Payload option \<Rightarrow> bool" where
  "atView v slot = (case slot of None \<Rightarrow> False | Some m \<Rightarrow> viewNumber m = v)"

definition countAtView :: "byte \<Rightarrow> Payload option list \<Rightarrow> nat" where
  "countAtView v slots = length (filter (atView v) slots)"

definition isPrepareRequest :: "Payload option \<Rightarrow> bool" where
  "isPrepareRequest slot =
     (case slot of None \<Rightarrow> False | Some m \<Rightarrow> cmType m = PrepareRequestType)"

definition hasPrepareRequest :: "Payload option list \<Rightarrow> bool" where
  "hasPrepareRequest slots = list_ex isPrepareRequest slots"

definition requestsAtLeast :: "byte \<Rightarrow> Payload option \<Rightarrow> bool" where
  "requestsAtLeast v slot =
     (case slot of
        None \<Rightarrow> False
      | Some m \<Rightarrow> (case GetChangeView m of None \<Rightarrow> False | Some cv \<Rightarrow> v \<le> newViewNumber cv))"

definition changeViewCount :: "byte \<Rightarrow> Payload option list \<Rightarrow> nat" where
  "changeViewCount v slots = length (filter (requestsAtLeast v) slots)"

text \<open>The node's own ChangeView slot holds a payload that proposes a view below \<open>v\<close>.\<close>

definition ownProposesLower :: "Config \<Rightarrow> byte \<Rightarrow> DBFT \<Rightarrow> bool" where
  "ownProposesLower cfg v d =
     (\<not> WatchOnly cfg d \<and>
      (case atInt (ChangeViewPayloads d) (MyIndex d) of
         Some (Some m) \<Rightarrow>
           (case GetChangeView m of Some cv \<Rightarrow> newViewNumber cv < v | None \<Rightarrow> False)
       | _ \<Rightarrow> False))"

text \<open>Every filled ChangeView slot holds a payload whose body is a ChangeView (the type
  assertion of \<^verbatim>\<open>GetChangeView\<close> succeeds on it).\<close>

definition isChangeViewSlot :: "Payload option \<Rightarrow> bool" where
  "isChangeViewSlot slot = (case slot of None \<Rightarrow> True | Some m \<Rightarrow> GetChangeView m \<noteq> None)"

definition wellTyped :: "Payload option list \<Rightarrow> bool" where
  "wellTyped slots = list_all isChangeViewSlot slots"

text \<open>The throttling rule of \<^verbatim>\<open>onRecoveryRequest\<close> in the words of the specification: the
  local index is one of the \<open>f\<close> successors of the requester's index \<open>r\<close> modulo \<open>N\<close>. A node
  is throttled when it has not sent its Commit and is such a successor; it answers a
  request when handling it makes it broadcast.\<close>

definition isSuccessor :: "DBFT \<Rightarrow> u16 \<Rightarrow> bool" where
  "isSuccessor d r = (\<exists>i\<in>{1..F d}. MyIndex d = int ((unat r + i) mod N d))"

definition throttled :: "Config \<Rightarrow> u16 \<Rightarrow> DBFT \<Rightarrow> bool" where
  "throttled cfg r d = (\<not> CommitSent cfg d \<and> isSuccessor d r)"

definition answers :: "Config \<Rightarrow> Payload \<Rightarrow> DBFT \<Rightarrow> bool" where
  "answers cfg msg d =
     (case onRecoveryRequest cfg msg d of
        None \<Rightarrow> False
      | Some d' \<Rightarrow> broadcasts (effects d') \<noteq> broadcasts (effects d))"

section \<open>A concrete host and concrete states\<close>

text \<open>A host for four validators on which the engine is evaluated: the chain height is
  the index of the last block handed to \<^verbatim>\<open>ProcessBlock\<close>, a signature is valid when it is
  the one-byte encoding of the signer's key, the header exists once the PrepareRequest
  slot is filled, and each sender broadcasts the payload it builds (the Commit sender
  also fills the local commit slot).\<close>

fun chainHeight :: "effect list \<Rightarrow> u32 \<Rightarrow> u32" where
  "chainHeight [] h = h"
| "chainHeight (ProcessBlock b # es) h = chainHeight es (bIndex b)"
| "chainHeight (e # es) h = chainHeight es h"

definition commitOf :: "DBFT \<Rightarrow> Payload" where
  "commitOf d = \<lparr>cmType = CommitType, viewNumber = ViewNumber d,
      payload = Some (CommitBody [word_of_int (MyIndex d)]),
      height = BlockIndex d, validatorIndex = word_of_int (MyIndex d)\<rparr>"

definition recoveryOf :: "DBFT \<Rightarrow> Payload" where
  "recoveryOf d = \<lparr>cmType = RecoveryMessageType, viewNumber = ViewNumber d,
      payload = Some (RecoveryMessageBody \<lparr>preparationHash = None, preparationPayloads = [],
         commitPayloads = [], changeViewPayloads = [], prepareRequestOf = None\<rparr>),
      height = BlockIndex d, validatorIndex = word_of_int (MyIndex d)\<rparr>"

definition changeViewOf :: "DBFT \<Rightarrow> u64 \<Rightarrow> ChangeViewReason \<Rightarrow> Payload" where
  "changeViewOf d ts r = \<lparr>cmType = ChangeViewType, viewNumber = ViewNumber d,
      payload = Some (ChangeViewBody
        \<lparr>newViewNumber = ViewNumber d + 1, cvTimestamp = ts, reason = r\<rparr>),
      height = BlockIndex d, validatorIndex = word_of_int (MyIndex d)\<rparr>"

definition blockOf :: "DBFT \<Rightarrow> Block" where
  "blockOf d = \<lparr>bIndex = BlockIndex d, bTimestamp = Timestamp d, bNonce = Nonce d,
      bNextConsensus = NextConsensus d, bTransactionHashes = TransactionHashes d,
      bSignatures = []\<rparr>"

definition testHost :: Config where
  "testHost = \<lparr>
     DevelopmentLogger = False,
     SecondsPerBlock = 15000000000,
     Now = 1700000000000000000,
     WatchOnlyCfg = False,
     CurrentHeight = (\<lambda>es. chainHeight es 0),
     GetValidators = (\<lambda>h. [10, 11, 12, 13]),
     GetKeyPair = (\<lambda>vs. 0),
     GetTx = (\<lambda>h. None),
     VerifyBlock = (\<lambda>b. True),
     GetConsensusAddress = (\<lambda>vs. []),
     VerifyPrepareRequest = (\<lambda>p. True),
     VerifyPrepareResponse = (\<lambda>p. True),
     Hash = (\<lambda>p. [viewNumber p]),
     txHash = (\<lambda>t. [word_of_nat t]),
     Verify = (\<lambda>b pub sg. sg = [word_of_nat pub]),
     CreateBlock = (\<lambda>d. Some (blockOf d)),
     MakeHeader = (\<lambda>d. if RequestSentOrReceived d then Some (blockOf d) else None),
     MoreThanFNodesCommittedOrLost = (\<lambda>d. False),
     makeChangeView = changeViewOf,
     sendCommit = (\<lambda>d. case store (CommitPayloads d) (nat (MyIndex d)) (Some (commitOf d)) of
                           None \<Rightarrow> None
                         | Some cps \<Rightarrow> Some (broadcast (commitOf d) (d\<lparr>CommitPayloads := cps\<rparr>))),
     sendPrepareRequest = (\<lambda>d. Some d),
     sendPrepareResponse = (\<lambda>d. Some d),
     sendChangeView = (\<lambda>r d. Some (broadcast (changeViewOf d 0 r) d)),
     sendRecoveryMessage = (\<lambda>d. Some (broadcast (recoveryOf d) d))\<rparr>"

definition changeViewFrom :: "u16 \<Rightarrow> byte \<Rightarrow> byte \<Rightarrow> Payload" where
  "changeViewFrom i v nv = \<lparr>cmType = ChangeViewType, viewNumber = v,
      payload = Some (ChangeViewBody \<lparr>newViewNumber = nv, cvTimestamp = 0, reason = CVTimeout\<rparr>),
      height = 1, validatorIndex = i\<rparr>"

definition prepareRequestFrom :: "u16 \<Rightarrow> Payload" where
  "prepareRequestFrom i = \<lparr>cmType = PrepareRequestType, viewNumber = 0,
      payload = Some (PrepareRequestBody \<lparr>timestamp = 1700000000, nonce = 7,
         transactionHashes = [], nextConsensus = []\<rparr>),
      height = 1, validatorIndex = i\<rparr>"

definition prepareResponseFrom :: "u16 \<Rightarrow> Payload" where
  "prepareResponseFrom i = \<lparr>cmType = PrepareResponseType, viewNumber = 0,
      payload = Some (PrepareResponseBody [0]), height = 1, validatorIndex = i\<rparr>"

definition commitFrom :: "u16 \<Rightarrow> byte \<Rightarrow> signature \<Rightarrow> Payload" where
  "commitFrom i v sg = \<lparr>cmType = CommitType, viewNumber = v,
      payload = Some (CommitBody sg), height = 1, validatorIndex = i\<rparr>"

text \<open>Height 1, view 0, four validators, the local node is validator 0 and validator 1 is
  the primary.\<close>

definition initialState :: DBFT where
  "initialState = \<lparr>BlockIndex = 1, ViewNumber = 0, Validators = [10, 11, 12, 13], MyIndex = 0,
     PrimaryIndex = 1, Timestamp = 0, Nonce = 0, NextConsensus = [], TransactionHashes = [],
     Transactions = Map.empty, MissingTransactions = [],
     PreparationPayloads = [None, None, None, None],
     CommitPayloads = [None, None, None, None],
     ChangeViewPayloads = [None, None, None, None],
     LastSeenMessage = [None, None, None, None],
     block = None, lastBlockIndex = 0, lastBlockTime = 0, cache = newCache,
     recovering = False, effects = []\<rparr>"

text \<open>Three validators ask for view 1, the local slot is empty.\<close>

definition viewChangeQuorum :: DBFT where
  "viewChangeQuorum = initialState\<lparr>ChangeViewPayloads :=
     [None, Some (changeViewFrom 1 0 1), Some (changeViewFrom 2 0 1), Some (changeViewFrom 3 0 1)]\<rparr>"

text \<open>Three validators ask for view 2, the local node asked for view 1.\<close>

definition viewChangePending :: DBFT where
  "viewChangePending = initialState\<lparr>ChangeViewPayloads :=
     [Some (changeViewFrom 0 0 1), Some (changeViewFrom 1 0 2),
      Some (changeViewFrom 2 0 2), Some (changeViewFrom 3 0 2)]\<rparr>"

text \<open>The PrepareRequest of the primary and two PrepareResponses are in.\<close>

definition preparedState :: DBFT where
  "preparedState = initialState\<lparr>PreparationPayloads :=
     [Some (prepareResponseFrom 0), Some (prepareRequestFrom 1),
      Some (prepareResponseFrom 2), None]\<rparr>"

text \<open>As before, and the local commit slot is already filled.\<close>

definition committedState :: DBFT where
  "committedState = preparedState\<lparr>CommitPayloads :=
     [Some (commitFrom 0 0 [10]), None, None, None]\<rparr>"

text \<open>As before, with three commits of the current view.\<close>

definition commitQuorum :: DBFT where
  "commitQuorum = preparedState\<lparr>CommitPayloads :=
     [Some (commitFrom 0 0 [10]), Some (commitFrom 1 0 [11]), Some (commitFrom 2 0 [12]), None]\<rparr>"

definition recoveryRequestFrom :: "u16 \<Rightarrow> Payload" where
  "recoveryRequestFrom i = \<lparr>cmType = RecoveryRequestType, viewNumber = 0,
      payload = Some (RecoveryRequestBody 0), height = 1, validatorIndex = i\<rparr>"

text \<open>Four nodes of one validator set: validators 0, 1 and 2 have sent their Commit,
  validator 3 has not.\<close>

definition committedNode :: "int \<Rightarrow> DBFT" where
  "committedNode i = initialState\<lparr>MyIndex := i,
     CommitPayloads := [None, None, None, None][nat i := Some (commitFrom (word_of_int i) 0 [])]\<rparr>"

definition fourNodes :: "DBFT list" where
  "fourNodes = [committedNode 0, committedNode 1, committedNode 2, initialState\<lparr>MyIndex := 3\<rparr>]"

section \<open>Properties\<close>

lemmas example_defs =
  initialState_def testHost_def preparedState_def committedState_def commitQuorum_def
  viewChangePending_def viewChangeQuorum_def
  prepareRequestFrom_def prepareResponseFrom_def commitFrom_def changeViewFrom_def
  commitOf_def recoveryOf_def changeViewOf_def blockOf_def newCache_def
  recoveryRequestFrom_def committedNode_def fourNodes_def

lemmas engine_defs =
  M_def N_def F_def WatchOnly_def IsPrimary_def IsBackup_def filled_def
  RequestSentOrReceived_def ResponseSent_def CommitSent_def BlockSent_def ViewChanging_def
  hasAllTransactions_def broadcast_def changeTimer_def extendTimer_def reset_def Sub_def
  InitializeConsensus_def checkCommit_def checkPrepare_def checkChangeView_def
  primary_def GetPrimaryIndex_def at_def atInt_def store_def
  GetChangeView_def GetCommit_def GetPrepareRequest_def GetPrepareResponse_def
  GetRecoveryMessage_def DPanic_def Let_def

lemmas spec_defs =
  atView_def countAtView_def isPrepareRequest_def hasPrepareRequest_def
  requestsAtLeast_def changeViewCount_def ownProposesLower_def wellTyped_def
  isChangeViewSlot_def

subsection \<open>Recorded effects\<close>

lemma broadcasts_append [simp]: "broadcasts (es @ fs) = broadcasts es @ broadcasts fs"
  by (induction es rule: broadcasts.induct) auto

lemma processed_append [simp]: "processed (es @ fs) = processed es @ processed fs"
  by (induction es rule: processed.induct) auto

subsection \<open>The counting loops\<close>

lemma countCommits_eq: "countCommits v ms c = c + countAtView v ms"
  by (induction v ms c rule: countCommits.induct) (auto simp: countAtView_def atView_def)

lemma countPreparations_eq:
  "countPreparations v ms (c, h) = (c + countAtView v ms, h \<or> hasPrepareRequest ms)"
  by (induction v ms "(c, h)" arbitrary: c h rule: countPreparations.induct)
     (auto simp: countAtView_def atView_def hasPrepareRequest_def isPrepareRequest_def)

lemma countChangeViews_eq:
  "wellTyped ms \<Longrightarrow> countChangeViews v ms c = Some (c + changeViewCount v ms)"
  by (induction v ms c rule: countChangeViews.induct)
     (auto simp: changeViewCount_def requestsAtLeast_def wellTyped_def isChangeViewSlot_def
           split: option.splits)

subsection \<open>Initialization\<close>

lemma InitializeConsensus_view:
  assumes "v \<noteq> 0"
  shows "\<exists>d'. InitializeConsensus cfg v d = Some d' \<and> BlockIndex d' = BlockIndex d \<and>
           ViewNumber d' = v \<and> broadcasts (effects d') = broadcasts (effects d) \<and>
           ChangeViewPayloads d' = ChangeViewPayloads d \<and> CommitPayloads d' = CommitPayloads d"
  using assms
  by (simp add: InitializeConsensus_def reset_def changeTimer_def Let_def)

lemma InitializeConsensus_height:
  assumes "GetValidators cfg (CurrentHeight cfg (effects d) + 1) \<noteq> []"
  shows "\<exists>d'. InitializeConsensus cfg 0 d = Some d' \<and>
           BlockIndex d' = CurrentHeight cfg (effects d) + 1 \<and> ViewNumber d' = 0 \<and>
           lastBlockIndex d' = lastBlockIndex d \<and> lastBlockTime d' = lastBlockTime d \<and>
           processed (effects d') = processed (effects d) \<and>
           broadcasts (effects d') = broadcasts (effects d)"
  using assms
  by (simp add: InitializeConsensus_def reset_def changeTimer_def Let_def)

subsection \<open>checkPrepare\<close>

text \<open>Claim C2, as the code has it. \<^verbatim>\<open>checkPrepare\<close> sends a Commit, resets the timer to
  \<^verbatim>\<open>SecondsPerBlock\<close> and runs \<^verbatim>\<open>checkCommit\<close> if and only if no proposed transaction is
  missing, a PrepareRequest is present among \<open>PreparationPayloads\<close>, and the number of
  \<open>PreparationPayloads\<close> whose view equals the current \<open>ViewNumber\<close> is at least \<open>M\<close>;
  otherwise it changes nothing and sends nothing. \<^verbatim>\<open>checkPrepare\<close> itself does not test
  \<open>RequestSentOrReceived\<close>, \<open>CommitSent\<close> or \<open>WatchOnly\<close>.\<close>

theorem checkPrepare_sends_commit:
  "checkPrepare cfg d =
     (if hasAllTransactions d \<and> hasPrepareRequest (PreparationPayloads d) \<and>
         M d \<le> countAtView (ViewNumber d) (PreparationPayloads d)
      then (case sendCommit cfg d of
              None \<Rightarrow> None
            | Some d1 \<Rightarrow> checkCommit cfg (changeTimer (SecondsPerBlock cfg) d1))
      else Some d)"
  by (auto simp: checkPrepare_def countPreparations_eq split: option.splits)

text \<open>On the prepared state the quorum is there and the Commit goes out.\<close>

theorem checkPrepare_sends_commit_witness:
  "hasAllTransactions preparedState \<and> hasPrepareRequest (PreparationPayloads preparedState) \<and>
   M preparedState \<le> countAtView (ViewNumber preparedState) (PreparationPayloads preparedState) \<and>
   map_option (broadcasts \<circ> effects) (checkPrepare testHost preparedState)
     = Some [commitOf preparedState]"
  using checkPrepare_sends_commit [of testHost preparedState]
  by (simp add: example_defs engine_defs spec_defs)

text \<open>With the local commit slot already filled (\<open>CommitSent\<close> holds, so the stated
  precondition fails) \<^verbatim>\<open>checkPrepare\<close> still sends a Commit.\<close>

theorem checkPrepare_counterexample:
  "hasAllTransactions committedState \<and> RequestSentOrReceived committedState \<and>
   \<not> WatchOnly testHost committedState \<and> CommitSent testHost committedState \<and>
   hasPrepareRequest (PreparationPayloads committedState) \<and>
   M committedState \<le> countAtView (ViewNumber committedState) (PreparationPayloads committedState) \<and>
   broadcasts (effects committedState) = [] \<and>
   map_option (broadcasts \<circ> effects) (checkPrepare testHost committedState)
     = Some [commitOf committedState]"
  by (simp add: example_defs engine_defs spec_defs)

subsection \<open>checkCommit\<close>

text \<open>Claim C3. For every call to \<^verbatim>\<open>checkCommit\<close>: if some proposed transaction is missing,
  or fewer than \<open>M\<close> \<open>CommitPayloads\<close> carry the current \<open>ViewNumber\<close>, the context is
  unchanged and no block is produced; otherwise the block is assembled from the context,
  \<open>lastBlockIndex\<close> and \<open>lastBlockTime\<close> are updated, the host's \<^verbatim>\<open>ProcessBlock\<close> is invoked
  with the assembled block, and consensus is re-initialized at view 0 on the next height.
  The host is taken to assemble a block, to report the agreed height as its current
  height once it has processed the block, and to know the validators of the next
  height.\<close>

theorem checkCommit_finalizes:
  "if \<not> hasAllTransactions d \<or> countAtView (ViewNumber d) (CommitPayloads d) < M d
   then checkCommit cfg d = Some d
   else (\<forall>b. CreateBlock cfg (d\<lparr>lastBlockIndex := BlockIndex d, lastBlockTime := Now cfg\<rparr>) = Some b \<and>
              CurrentHeight cfg (effects d @ [ProcessBlock b]) = BlockIndex d \<and>
              GetValidators cfg (BlockIndex d + 1) \<noteq> [] \<longrightarrow>
          (\<exists>d'. checkCommit cfg d = Some d' \<and>
                InitializeConsensus cfg 0
                  (d\<lparr>lastBlockIndex := BlockIndex d, lastBlockTime := Now cfg,
                     block := Some b, effects := effects d @ [ProcessBlock b]\<rparr>) = Some d' \<and>
                lastBlockIndex d' = BlockIndex d \<and> lastBlockTime d' = Now cfg \<and>
                processed (effects d') = processed (effects d) @ [b] \<and>
                ViewNumber d' = 0 \<and> BlockIndex d' = BlockIndex d + 1))"
proof (cases "\<not> hasAllTransactions d \<or> countAtView (ViewNumber d) (CommitPayloads d) < M d")
  case True
  then show ?thesis
    by (auto simp: checkCommit_def countCommits_eq)
next
  case False
  have "\<exists>d'. checkCommit cfg d = Some d' \<and>
                InitializeConsensus cfg 0
                  (d\<lparr>lastBlockIndex := BlockIndex d, lastBlockTime := Now cfg,
                     block := Some b, effects := effects d @ [ProcessBlock b]\<rparr>) = Some d' \<and>
                lastBlockIndex d' = BlockIndex d \<and> lastBlockTime d' = Now cfg \<and>
                processed (effects d') = processed (effects d) @ [b] \<and>
                ViewNumber d' = 0 \<and> BlockIndex d' = BlockIndex d + 1"
    if b: "CreateBlock cfg (d\<lparr>lastBlockIndex := BlockIndex d, lastBlockTime := Now cfg\<rparr>) = Some b"
      and h: "CurrentHeight cfg (effects d @ [ProcessBlock b]) = BlockIndex d"
      and vs: "GetValidators cfg (BlockIndex d + 1) \<noteq> []" for b
  proof -
    let ?d2 = "d\<lparr>lastBlockIndex := BlockIndex d, lastBlockTime := Now cfg,
                     block := Some b, effects := effects d @ [ProcessBlock b]\<rparr>"
    have "GetValidators cfg (CurrentHeight cfg (effects ?d2) + 1) \<noteq> []"
      using h vs by simp
    from InitializeConsensus_height [OF this] obtain d' where
      d': "InitializeConsensus cfg 0 ?d2 = Some d'"
        "BlockIndex d' = CurrentHeight cfg (effects ?d2) + 1" "ViewNumber d' = 0"
        "lastBlockIndex d' = lastBlockIndex ?d2" "lastBlockTime d' = lastBlockTime ?d2"
        "processed (effects d') = processed (effects ?d2)"
      by blast
    have "checkCommit cfg d = Some d'"
      using False b d'(1) by (simp add: checkCommit_def countCommits_eq Let_def)
    with d' h show ?thesis by simp
  qed
  with False show ?thesis by auto
qed

text \<open>Three commits of view 0 among four validators: the block of height 1 is processed and
  the engine moves to height 2, view 0.\<close>

theorem checkCommit_finalizes_witness:
  "hasAllTransactions commitQuorum \<and>
   M commitQuorum \<le> countAtView (ViewNumber commitQuorum) (CommitPayloads commitQuorum) \<and>
   map_option BlockIndex (checkCommit testHost commitQuorum) = Some 2 \<and>
   map_option ViewNumber (checkCommit testHost commitQuorum) = Some 0 \<and>
   map_option (processed \<circ> effects) (checkCommit testHost commitQuorum) =
     Some [blockOf commitQuorum]"
proof -
  have c: "\<not> (\<not> hasAllTransactions commitQuorum \<or>
      countAtView (ViewNumber commitQuorum) (CommitPayloads commitQuorum) < M commitQuorum)"
    by (simp add: example_defs engine_defs spec_defs)
  have b: "CreateBlock testHost (commitQuorum\<lparr>lastBlockIndex := BlockIndex commitQuorum,
        lastBlockTime := Now testHost\<rparr>) = Some (blockOf commitQuorum) \<and>
      CurrentHeight testHost (effects commitQuorum @ [ProcessBlock (blockOf commitQuorum)])
        = BlockIndex commitQuorum \<and>
      GetValidators testHost (BlockIndex commitQuorum + 1) \<noteq> []"
    by (simp add: example_defs)
  from checkCommit_finalizes [of commitQuorum testHost] b obtain d' where
    "checkCommit testHost commitQuorum = Some d'"
    "processed (effects d') = processed (effects commitQuorum) @ [blockOf commitQuorum]"
    "ViewNumber d' = 0" "BlockIndex d' = BlockIndex commitQuorum + 1"
    unfolding if_not_P [OF c] by blast
  then show ?thesis
    using c by (simp add: example_defs)
qed

subsection \<open>checkChangeView\<close>

lemma checkChangeView_eq:
  assumes wt: "wellTyped (ChangeViewPayloads d)"
    and idx: "\<not> WatchOnly cfg d \<longrightarrow> nat (MyIndex d) < length (ChangeViewPayloads d)"
  shows "checkChangeView cfg v d =
     (if ViewNumber d < v \<and> M d \<le> changeViewCount v (ChangeViewPayloads d)
      then InitializeConsensus cfg v
             (if ownProposesLower cfg v d
              then broadcast (makeChangeView cfg d (word_of_int (Now cfg)) CVChangeAgreement) d
              else d)
      else Some d)"
proof -
  have own: "\<not> WatchOnly cfg d \<Longrightarrow>
      \<exists>s. atInt (ChangeViewPayloads d) (MyIndex d) = Some s \<and> isChangeViewSlot s"
    using wt idx
    by (auto simp: atInt_def WatchOnly_def wellTyped_def list_all_length)
  show ?thesis
  proof (cases "WatchOnly cfg d")
    case True
    then show ?thesis
      by (auto simp: checkChangeView_def countChangeViews_eq [OF wt] ownProposesLower_def
          not_less not_le)
  next
    case False
    from own [OF False] obtain s where s: "atInt (ChangeViewPayloads d) (MyIndex d) = Some s"
      and ty: "isChangeViewSlot s" by blast
    show ?thesis
      using False s ty
      by (auto simp: checkChangeView_def countChangeViews_eq [OF wt] ownProposesLower_def
          isChangeViewSlot_def not_less not_le split: option.splits)
  qed
qed

text \<open>Claim C4, as the code has it. For every view \<open>v\<close> greater than the current
  \<open>ViewNumber\<close>, when \<^verbatim>\<open>checkChangeView(v)\<close> counts at least \<open>M\<close> \<open>ChangeViewPayloads\<close> whose
  requested view is at least \<open>v\<close>: if the node is not watch-only and its own ChangeView slot
  holds a payload proposing a view below \<open>v\<close>, the node broadcasts the ChangeView that
  \<^verbatim>\<open>makeChangeView\<close> builds with reason \<open>ChangeAgreement\<close>, and otherwise (also when its slot
  holds no payload) it broadcasts nothing; in all cases the context is then re-initialized
  at the same height with \<open>ViewNumber = v\<close>. With fewer than \<open>M\<close> such payloads, or \<open>v\<close> not
  above the current view, nothing changes. The filled ChangeView slots hold ChangeView
  payloads and the local index of a validator is a slot index.\<close>

theorem checkChangeView_reinitializes:
  assumes wt: "wellTyped (ChangeViewPayloads d)"
    and idx: "\<not> WatchOnly cfg d \<longrightarrow> nat (MyIndex d) < length (ChangeViewPayloads d)"
  shows "if ViewNumber d < v \<and> M d \<le> changeViewCount v (ChangeViewPayloads d)
     then \<exists>d'. checkChangeView cfg v d = Some d' \<and>
            InitializeConsensus cfg v
              (if ownProposesLower cfg v d
               then broadcast (makeChangeView cfg d (word_of_int (Now cfg)) CVChangeAgreement) d
               else d) = Some d' \<and>
            BlockIndex d' = BlockIndex d \<and> ViewNumber d' = v \<and>
            broadcasts (effects d') = broadcasts (effects d) @
              (if ownProposesLower cfg v d
               then [makeChangeView cfg d (word_of_int (Now cfg)) CVChangeAgreement] else [])
     else checkChangeView cfg v d = Some d"
proof (cases "ViewNumber d < v \<and> M d \<le> changeViewCount v (ChangeViewPayloads d)")
  case True
  then have "v \<noteq> 0" by auto
  let ?d1 = "if ownProposesLower cfg v d
               then broadcast (makeChangeView cfg d (word_of_int (Now cfg)) CVChangeAgreement) d
               else d"
  from InitializeConsensus_view [OF \<open>v \<noteq> 0\<close>, of cfg ?d1] obtain d' where
    d': "InitializeConsensus cfg v ?d1 = Some d'" "BlockIndex d' = BlockIndex ?d1"
      "ViewNumber d' = v" "broadcasts (effects d') = broadcasts (effects ?d1)"
    by blast
  have "checkChangeView cfg v d = Some d'"
    using checkChangeView_eq [OF wt idx, where v = v] d'(1) unfolding if_P [OF True] by simp
  with d' show ?thesis
    unfolding if_P [OF True] by (auto simp: broadcast_def)
next
  case False
  show ?thesis
    using checkChangeView_eq [OF wt idx, where v = v] unfolding if_not_P [OF False] .
qed

text \<open>The local node asked for view 1, three others for view 2: on \<^verbatim>\<open>checkChangeView(2)\<close>
  the node broadcasts a ChangeView and moves to view 2 at height 1.\<close>

theorem checkChangeView_reinitializes_witness:
  "wellTyped (ChangeViewPayloads viewChangePending) \<and>
   \<not> WatchOnly testHost viewChangePending \<and>
   nat (MyIndex viewChangePending) < length (ChangeViewPayloads viewChangePending) \<and>
   ViewNumber viewChangePending < 2 \<and>
   M viewChangePending \<le> changeViewCount 2 (ChangeViewPayloads viewChangePending) \<and>
   ownProposesLower testHost 2 viewChangePending \<and>
   map_option BlockIndex (checkChangeView testHost 2 viewChangePending) = Some 1 \<and>
   map_option ViewNumber (checkChangeView testHost 2 viewChangePending) = Some 2 \<and>
   map_option (broadcasts \<circ> effects) (checkChangeView testHost 2 viewChangePending) =
     Some [changeViewOf viewChangePending (word_of_int (Now testHost)) CVChangeAgreement]"
proof -
  have wt: "wellTyped (ChangeViewPayloads viewChangePending)"
    by (simp add: example_defs engine_defs spec_defs)
  have nw: "\<not> WatchOnly testHost viewChangePending"
    by (simp add: example_defs engine_defs spec_defs)
  have ix: "nat (MyIndex viewChangePending) < length (ChangeViewPayloads viewChangePending)"
    by (simp add: example_defs engine_defs spec_defs)
  from ix have idx: "\<not> WatchOnly testHost viewChangePending \<longrightarrow>
      nat (MyIndex viewChangePending) < length (ChangeViewPayloads viewChangePending)"
    by simp
  have c: "ViewNumber viewChangePending < 2 \<and>
      M viewChangePending \<le> changeViewCount 2 (ChangeViewPayloads viewChangePending)"
    by (simp add: example_defs engine_defs spec_defs)
  have own: "ownProposesLower testHost 2 viewChangePending"
    by (simp add: example_defs engine_defs spec_defs)
  from checkChangeView_reinitializes [OF wt idx, where v = 2] obtain d' where
    "checkChangeView testHost 2 viewChangePending = Some d'"
    "BlockIndex d' = BlockIndex viewChangePending" "ViewNumber d' = 2"
    "broadcasts (effects d') = broadcasts (effects viewChangePending) @
       [makeChangeView testHost viewChangePending (word_of_int (Now testHost)) CVChangeAgreement]"
    unfolding if_P [OF c] if_P [OF own] by blast
  then show ?thesis
    using wt nw ix c own by (simp add: example_defs)
qed

text \<open>Three validators ask for view 1 and the local slot holds no payload: the node moves to
  view 1 and broadcasts nothing.\<close>

theorem checkChangeView_counterexample:
  "ViewNumber viewChangeQuorum < 1 \<and>
   M viewChangeQuorum \<le> changeViewCount 1 (ChangeViewPayloads viewChangeQuorum) \<and>
   \<not> WatchOnly testHost viewChangeQuorum \<and>
   atInt (ChangeViewPayloads viewChangeQuorum) (MyIndex viewChangeQuorum) = Some None \<and>
   map_option (broadcasts \<circ> effects) (checkChangeView testHost 1 viewChangeQuorum) = Some []"
  by (simp add: example_defs engine_defs spec_defs)

subsection \<open>onRecoveryRequest\<close>

lemma shouldSendFrom_eq:
  "0 < n \<Longrightarrow> shouldSendFrom f vi n my i = Some (\<exists>j. i \<le> j \<and> j \<le> f \<and> my = int ((vi + j) mod n))"
proof (induction f vi n my i rule: shouldSendFrom.induct)
  case (1 f vi n my i)
  show ?case
  proof (cases "i \<le> f")
    case False
    then have "shouldSendFrom f vi n my i = Some False"
      by (subst shouldSendFrom.simps) simp
    moreover have "\<not> (\<exists>j. i \<le> j \<and> j \<le> f \<and> my = int ((vi + j) mod n))"
      using False by auto
    ultimately show ?thesis by simp
  next
    case le: True
    show ?thesis
    proof (cases "int ((vi + i) mod n) = my")
      case True
      with le 1(2) have "shouldSendFrom f vi n my i = Some True"
        by (subst shouldSendFrom.simps) simp
      moreover have "\<exists>j. i \<le> j \<and> j \<le> f \<and> my = int ((vi + j) mod n)"
        using le True by (intro exI [of _ i]) simp
      ultimately show ?thesis by simp
    next
      case False
      with le 1(2) have "shouldSendFrom f vi n my i = shouldSendFrom f vi n my (i + 1)"
        by (subst shouldSendFrom.simps) simp
      also have "\<dots> = Some (\<exists>j. i + 1 \<le> j \<and> j \<le> f \<and> my = int ((vi + j) mod n))"
        using 1(1) [OF le _ False] 1(2) by simp
      also have "(\<exists>j. i + 1 \<le> j \<and> j \<le> f \<and> my = int ((vi + j) mod n)) =
                 (\<exists>j. i \<le> j \<and> j \<le> f \<and> my = int ((vi + j) mod n))"
      proof
        assume "\<exists>j. i + 1 \<le> j \<and> j \<le> f \<and> my = int ((vi + j) mod n)"
        then obtain j where "i + 1 \<le> j" "j \<le> f" "my = int ((vi + j) mod n)" by blast
        then show "\<exists>j. i \<le> j \<and> j \<le> f \<and> my = int ((vi + j) mod n)"
          by (intro exI [of _ j]) simp
      next
        assume "\<exists>j. i \<le> j \<and> j \<le> f \<and> my = int ((vi + j) mod n)"
        then obtain j where j: "i \<le> j" "j \<le> f" "my = int ((vi + j) mod n)" by blast
        with False have "j \<noteq> i" by auto
        with j show "\<exists>j. i + 1 \<le> j \<and> j \<le> f \<and> my = int ((vi + j) mod n)"
          by (intro exI [of _ j]) simp
      qed
      finally show ?thesis .
    qed
  qed
qed

lemma shouldSend_loop:
  "shouldSendFrom (F d) (unat r) (length (Validators d)) (MyIndex d) 1 = Some (isSuccessor d r)"
proof (cases "length (Validators d) = 0")
  case True
  then have "F d = 0" by (simp add: F_def N_def)
  then have "shouldSendFrom (F d) (unat r) (length (Validators d)) (MyIndex d) 1 = Some False"
    by (subst shouldSendFrom.simps) simp
  moreover have "\<not> isSuccessor d r"
    using \<open>F d = 0\<close> by (simp add: isSuccessor_def)
  ultimately show ?thesis by simp
next
  case False
  then have "0 < length (Validators d)" by simp
  from shouldSendFrom_eq [OF this, of "F d" "unat r" "MyIndex d" 1]
  show ?thesis
    by (simp add: isSuccessor_def N_def Bex_def)
qed

lemma throttled_bound:
  assumes dist: "distinct (map MyIndex ds)" and same: "\<forall>d\<in>set ds. Validators d = vs"
  shows "length (filter (throttled cfg r) ds) \<le> (length vs - 1) div 3"
proof -
  let ?f = "(length vs - 1) div 3"
  let ?xs = "filter (throttled cfg r) ds"
  have d: "distinct (map MyIndex ?xs)"
    using dist by (rule distinct_map_filter)
  have sub: "set (map MyIndex ?xs) \<subseteq> (\<lambda>i. int ((unat r + i) mod length vs)) ` {1..?f}"
    using same by (auto simp: throttled_def isSuccessor_def F_def N_def)
  have "length ?xs = card (set (map MyIndex ?xs))"
    using d by (metis distinct_card length_map)
  also have "\<dots> \<le> card ((\<lambda>i. int ((unat r + i) mod length vs)) ` {1..?f})"
    using sub by (intro card_mono) auto
  also have "\<dots> \<le> card {1..?f}"
    by (rule card_image_le) simp
  finally show ?thesis by simp
qed

lemma onRecoveryRequest_eq:
  "onRecoveryRequest cfg msg d =
     (if CommitSent cfg d \<or> isSuccessor d (validatorIndex msg)
      then sendRecoveryMessage cfg d else Some d)"
  unfolding onRecoveryRequest_def shouldSend_loop by auto

text \<open>Claim C8, as the code has it. On receiving a RecoveryRequest from validator index \<open>r\<close>:
  a node that has already sent its Commit always replies with a RecoveryMessage; otherwise
  it replies if and only if its own index equals \<open>(r + i) mod N\<close> for some \<open>i\<close> in \<open>1..f\<close>, so
  that for every request at most \<open>f\<close> of the nodes that have not sent their Commit answer
  (the nodes are distinct validators of one validator set).\<close>

theorem onRecoveryRequest_throttles:
  "onRecoveryRequest cfg msg d =
     (if CommitSent cfg d \<or> isSuccessor d (validatorIndex msg)
      then sendRecoveryMessage cfg d else Some d) \<and>
   (distinct (map MyIndex ds) \<and> (\<forall>d\<in>set ds. Validators d = vs) \<longrightarrow>
      length (filter (throttled cfg r) ds) \<le> (length vs - 1) div 3)"
  using throttled_bound [of ds vs cfg r] onRecoveryRequest_eq [of cfg msg d]
  by blast

text \<open>Validator 0 is the successor of requester 3 among four validators and answers; of the
  four nodes at most one that has not committed answers.\<close>

theorem onRecoveryRequest_throttles_witness:
  "\<not> CommitSent testHost initialState \<and> isSuccessor initialState 3 \<and>
   map_option (broadcasts \<circ> effects) (onRecoveryRequest testHost (recoveryRequestFrom 3) initialState)
     = Some [recoveryOf initialState] \<and>
   distinct (map MyIndex fourNodes) \<and>
   length (filter (throttled testHost 3) fourNodes) \<le> 1"
proof -
  have s: "isSuccessor initialState 3"
    by (simp add: isSuccessor_def example_defs engine_defs)
  have c: "\<not> CommitSent testHost initialState"
    by (simp add: example_defs engine_defs)
  have dist: "distinct (map MyIndex fourNodes)"
    by (simp add: fourNodes_def committedNode_def example_defs)
  have same: "\<forall>d\<in>set fourNodes. Validators d = [10, 11, 12, 13]"
    by (simp add: fourNodes_def committedNode_def example_defs)
  from onRecoveryRequest_throttles [of testHost "recoveryRequestFrom 3" initialState fourNodes
      "[10, 11, 12, 13]" 3] dist same s
  have "onRecoveryRequest testHost (recoveryRequestFrom 3) initialState
          = sendRecoveryMessage testHost initialState"
    and "length (filter (throttled testHost 3) fourNodes) \<le> 1"
    by (simp_all add: recoveryRequestFrom_def)
  then show ?thesis
    using s c dist by (simp add: example_defs engine_defs)
qed

text \<open>With \<open>f = 1\<close> and three nodes that have sent their Commit, three nodes answer the
  request of validator 3, more than \<open>f + 1\<close>.\<close>

theorem onRecoveryRequest_counterexample:
  "F (hd fourNodes) + 1 = 2 \<and> length (filter (answers testHost (recoveryRequestFrom 3)) fourNodes) = 3"
  by (simp add: fourNodes_def committedNode_def answers_def onRecoveryRequest_eq isSuccessor_def
      recoveryRequestFrom_def example_defs engine_defs)

end
